theory Spec2Isabelle
  imports Complex_Main
begin

section \<open>Python values handled by the Product model\<close>

text \<open>
  The model of \<^verbatim>\<open>service/models.py\<close>. A Product is an ORM object whose attributes hold
  arbitrary Python values until they are flushed, and \<^verbatim>\<open>deserialize\<close> receives an untyped
  request body, so values are modelled dynamically typed.
\<close>

text \<open>\<^verbatim>\<open>class Category(Enum)\<close>: the six members, in the order of the source.\<close>

datatype Category = UNKNOWN | CLOTHS | FOOD | HOUSEWARES | AUTOMOTIVE | TOOLS

text \<open>\<^verbatim>\<open>member.name\<close> and \<^verbatim>\<open>member.value\<close>.\<close>

fun Category_name :: "Category \<Rightarrow> string" where
  "Category_name UNKNOWN = ''UNKNOWN''"
| "Category_name CLOTHS = ''CLOTHS''"
| "Category_name FOOD = ''FOOD''"
| "Category_name HOUSEWARES = ''HOUSEWARES''"
| "Category_name AUTOMOTIVE = ''AUTOMOTIVE''"
| "Category_name TOOLS = ''TOOLS''"

fun Category_value :: "Category \<Rightarrow> int" where
  "Category_value UNKNOWN = 0"
| "Category_value CLOTHS = 1"
| "Category_value FOOD = 2"
| "Category_value HOUSEWARES = 3"
| "Category_value AUTOMOTIVE = 4"
| "Category_value TOOLS = 5"

definition Category_members :: "Category list" where
  "Category_members = [UNKNOWN, CLOTHS, FOOD, HOUSEWARES, AUTOMOTIVE, TOOLS]"

text \<open>
  \<^verbatim>\<open>decimal.Decimal\<close>: a finite number is the triple of sign, coefficient and exponent,
  \<open>(-1)^sign * coefficient * 10^exponent\<close>; the special values are the infinities, the
  quiet NaN and the signalling NaN (the sign and payload of a NaN are not modelled).
\<close>

datatype Decimal = Dec bool nat int | DInf bool | DNaN | DsNaN

text \<open>
  A Python \<^verbatim>\<open>float\<close> (an IEEE binary64): a finite float is sign, mantissa and binary
  exponent, \<open>(-1)^sign * mantissa * 2^exponent\<close>, kept canonical (the mantissa odd, or
  mantissa and exponent both 0), so that equal floats are equal terms.
\<close>

datatype pyfloat = Fin bool nat int | FInf bool | FNaN

text \<open>
  The values of the model. A dict is an association list with string keys (a JSON
  object); lookup takes the first entry of a key.
\<close>

datatype pyval =
    PNone
  | PBool bool
  | PInt int
  | PFloat pyfloat
  | PStr string
  | PDecimal Decimal
  | PCategory Category
  | PList "pyval list"
  | PDict "(string \<times> pyval) list"

text \<open>
  The exceptions of the model. \<^verbatim>\<open>DataValidationError\<close> is the class of the source; the
  others are the built-in ones its operations raise, with their first argument.
  \<^verbatim>\<open>decimal.InvalidOperation\<close> is an \<^verbatim>\<open>ArithmeticError\<close>.
\<close>

datatype exn =
    DataValidationError string
  | KeyError string
  | TypeError string
  | AttributeError string
  | ValueError string
  | OverflowError string
  | InvalidOperation

text \<open>\<^verbatim>\<open>class Product(db.Model)\<close>: the six columns, as attributes of the object.\<close>

record Product =
  id' :: pyval
  name :: pyval
  description :: pyval
  price :: pyval
  available :: pyval
  category :: pyval

text \<open>\<^verbatim>\<open>Product()\<close>: every attribute of a new object reads \<^verbatim>\<open>None\<close>.\<close>

definition new_Product :: Product where
  "new_Product = \<lparr>id' = PNone, name = PNone, description = PNone, price = PNone,
     available = PNone, category = PNone\<rparr>"

section \<open>Strings\<close>

text \<open>\<^verbatim>\<open>s.strip(chars)\<close>: drops the characters of \<open>chars\<close> from both ends.\<close>

definition str_strip :: "string \<Rightarrow> string \<Rightarrow> string" where
  "str_strip chars s =
     rev (dropWhile (\<lambda>c. c \<in> set chars) (rev (dropWhile (\<lambda>c. c \<in> set chars) s)))"

text \<open>
  The characters \<^verbatim>\<open>s.strip()\<close> drops: tab, line feed, vertical tab, form feed, carriage
  return, the four separators 0x1C to 0x1F and the space (the whitespace of ASCII).
\<close>

definition whitespace :: string where
  "whitespace = [CHR 0x09, CHR 0x0A, CHR 0x0B, CHR 0x0C, CHR 0x0D,
     CHR 0x1C, CHR 0x1D, CHR 0x1E, CHR 0x1F, CHR '' '']"

definition lower :: "char \<Rightarrow> char" where
  "lower c =
     (case map_of (zip ''ABCDEFGHIJKLMNOPQRSTUVWXYZ'' ''abcdefghijklmnopqrstuvwxyz'') c of
        Some l \<Rightarrow> l
      | None \<Rightarrow> c)"

definition is_digit :: "char \<Rightarrow> bool" where
  "is_digit c = (c \<in> set ''0123456789'')"

definition digit_val :: "char \<Rightarrow> nat" where
  "digit_val c = of_char c - 48"

text \<open>\<^verbatim>\<open>int(digits)\<close> for a string of decimal digits (0 for the empty string).\<close>

definition nat_of_digits :: "string \<Rightarrow> nat" where
  "nat_of_digits ds = foldl (\<lambda>a c. 10 * a + digit_val c) 0 ds"

text \<open>\<^verbatim>\<open>len(str(n))\<close> for a natural number: the number of its decimal digits.\<close>

fun ndigits :: "nat \<Rightarrow> nat" where
  "ndigits n = (if n < 10 then 1 else Suc (ndigits (n div 10)))"

declare ndigits.simps [simp del]

text \<open>\<^verbatim>\<open>n.bit_length()\<close> for a natural number.\<close>

fun bit_length :: "nat \<Rightarrow> nat" where
  "bit_length n = (if n = 0 then 0 else Suc (bit_length (n div 2)))"

declare bit_length.simps [simp del]

section \<open>Decimal\<close>

text \<open>An optional sign at the head of a string: whether it is a minus, and the rest.\<close>

definition split_sign :: "string \<Rightarrow> bool \<times> string" where
  "split_sign s =
     (case s of
        [] \<Rightarrow> (False, [])
      | c # r \<Rightarrow>
          if c = CHR ''-'' then (True, r)
          else if c = CHR ''+'' then (False, r)
          else (False, s))"

text \<open>
  The exponent part of a numeric string, up to the end of the string: nothing, or
  \<^verbatim>\<open>E\<close>, an optional sign and at least one digit.
\<close>

definition parse_exponent :: "string \<Rightarrow> int option" where
  "parse_exponent s =
     (case s of
        [] \<Rightarrow> Some 0
      | c # r \<Rightarrow>
          if lower c = CHR ''e'' then
            (let (neg, ds) = split_sign r
             in if ds \<noteq> [] \<and> list_all is_digit ds
                then Some (if neg then - int (nat_of_digits ds) else int (nat_of_digits ds))
                else None)
          else None)"

text \<open>
  \<^verbatim>\<open>Decimal(value)\<close> for a string: surrounding whitespace is stripped and underscores are
  removed; what is left is an optional sign and then a number (digits with an optional
  point and an optional exponent, at least one digit), an infinity or a NaN, letters in
  either case. The conversion is exact. Anything else raises
  \<^verbatim>\<open>decimal.InvalidOperation\<close>. (Digits are the ASCII digits; the limit that the
  implementation puts on the size of an exponent, 18 digits, is not modelled.)
\<close>

definition Decimal_of_str :: "string \<Rightarrow> exn + Decimal" where
  "Decimal_of_str v =
     (let (sign, s) = split_sign (filter (\<lambda>c. c \<noteq> CHR ''_'') (str_strip whitespace v));
          l = map lower s;
          intpart = takeWhile is_digit s;
          r = dropWhile is_digit s;
          fracpart = (case r of [] \<Rightarrow> [] | c # t \<Rightarrow>
                        if c = CHR ''.'' then takeWhile is_digit t else []);
          rest = (case r of [] \<Rightarrow> [] | c # t \<Rightarrow>
                        if c = CHR ''.'' then dropWhile is_digit t else r)
      in if l = ''inf'' \<or> l = ''infinity'' then Inr (DInf sign)
         else if take 3 l = ''nan'' \<and> list_all is_digit (drop 3 l) then Inr DNaN
         else if take 4 l = ''snan'' \<and> list_all is_digit (drop 4 l) then Inr DsNaN
         else if intpart = [] \<and> fracpart = [] then Inl InvalidOperation
         else (case parse_exponent rest of
                 None \<Rightarrow> Inl InvalidOperation
               | Some e \<Rightarrow>
                   Inr (Dec sign (nat_of_digits (intpart @ fracpart))
                          (e - int (length fracpart)))))"

text \<open>
  \<^verbatim>\<open>Decimal.from_float(f)\<close>: the exact value of the float. For a finite float,
  \<^verbatim>\<open>n, d = abs(f).as_integer_ratio(); k = d.bit_length() - 1\<close> and the result is
  \<open>n * 5^k\<close> with exponent \<open>-k\<close>. The mantissa of a float with a negative exponent is
  odd, so the ratio is \<open>mantissa / 2^(-exponent)\<close>.
\<close>

definition as_integer_ratio :: "nat \<Rightarrow> int \<Rightarrow> nat \<times> nat" where
  "as_integer_ratio m e = (if 0 \<le> e then (m * 2 ^ nat e, 1) else (m, 2 ^ nat (- e)))"

definition Decimal_from_float :: "pyfloat \<Rightarrow> Decimal" where
  "Decimal_from_float f =
     (case f of
        FInf s \<Rightarrow> DInf s
      | FNaN \<Rightarrow> DNaN
      | Fin s m e \<Rightarrow>
          (let (n, d) = as_integer_ratio m e; k = bit_length d - 1
           in Dec s (n * 5 ^ k) (- int k)))"

text \<open>
  The arithmetic context of \<^verbatim>\<open>decimal\<close>: the source never changes it, so it is the
  default one, with 28 digits of precision, \<^verbatim>\<open>Emax = 999999\<close> and the trap of
  \<^verbatim>\<open>InvalidOperation\<close> enabled.
\<close>

definition prec :: nat where
  "prec = 28"

definition Emax :: int where
  "Emax = 999999"

text \<open>
  \<^verbatim>\<open>value.quantize(Decimal("0.01"), rounding=ROUND_HALF_UP)\<close>. A quiet NaN is returned
  as it is; a signalling NaN and an infinity raise. A zero becomes the zero of exponent
  -2. Otherwise the operation raises when the result would need more than \<open>prec\<close>
  digits, and else rescales the coefficient to the exponent -2: zeros are appended when
  the exponent is at least -2; else the last \<open>k = -2 - exponent\<close> digits are dropped
  and the coefficient is incremented when the first dropped digit is 5 or more.
\<close>

definition rescale_half_up :: "nat \<Rightarrow> int \<Rightarrow> nat" where
  "rescale_half_up c e =
     (if - 2 \<le> e then c * 10 ^ nat (e + 2)
      else let k = nat (- 2 - e)
           in c div 10 ^ k + (if 5 \<le> (c div 10 ^ (k - 1)) mod 10 then 1 else 0))"

definition quantize_cents :: "Decimal \<Rightarrow> exn + Decimal" where
  "quantize_cents v =
     (case v of
        DNaN \<Rightarrow> Inr DNaN
      | DsNaN \<Rightarrow> Inl InvalidOperation
      | DInf s \<Rightarrow> Inl InvalidOperation
      | Dec s c e \<Rightarrow>
          if c = 0 then Inr (Dec s 0 (- 2))
          else
            (let adjusted = e + int (ndigits c) - 1
             in if Emax < adjusted then Inl InvalidOperation
                else if int prec < adjusted + 2 + 1 then Inl InvalidOperation
                else let c' = rescale_half_up c e
                     in if prec < ndigits c' then Inl InvalidOperation
                        else Inr (Dec s c' (- 2))))"

section \<open>Floats\<close>











section \<open>Built-in operations on values\<close>

definition quoted :: "string \<Rightarrow> string" where
  "quoted s = [CHR 0x27] @ s @ [CHR 0x27]"

text \<open>\<^verbatim>\<open>type(v).__name__\<close>, with the module for Decimal as the interpreter prints it.\<close>

fun type_name :: "pyval \<Rightarrow> string" where
  "type_name PNone = ''NoneType''"
| "type_name (PBool b) = ''bool''"
| "type_name (PInt n) = ''int''"
| "type_name (PFloat f) = ''float''"
| "type_name (PStr s) = ''str''"
| "type_name (PDecimal d) = ''decimal.Decimal''"
| "type_name (PCategory c) = ''Category''"
| "type_name (PList l) = ''list''"
| "type_name (PDict m) = ''dict''"

text \<open>\<^verbatim>\<open>str(type(v))\<close>.\<close>

definition str_type :: "pyval \<Rightarrow> string" where
  "str_type v =
     (case v of
        PCategory c \<Rightarrow> ''<enum '' @ quoted (type_name v) @ ''>''
      | _ \<Rightarrow> ''<class '' @ quoted (type_name v) @ ''>'')"

text \<open>\<^verbatim>\<open>isinstance(v, bool)\<close>.\<close>

definition isinstance_bool :: "pyval \<Rightarrow> bool" where
  "isinstance_bool v = (case v of PBool b \<Rightarrow> True | _ \<Rightarrow> False)"

text \<open>
  \<^verbatim>\<open>data[key]\<close> for a string key: a dict gives the value or raises \<^verbatim>\<open>KeyError\<close> with
  the key; every other value of the model raises \<^verbatim>\<open>TypeError\<close> (a string and a list
  take integer indices only, the rest are not subscriptable). The texts of the
  \<^verbatim>\<open>TypeError\<close> are the interpreter's.
\<close>

definition subscript :: "pyval \<Rightarrow> string \<Rightarrow> exn + pyval" where
  "subscript data key =
     (case data of
        PDict m \<Rightarrow> (case map_of m key of None \<Rightarrow> Inl (KeyError key) | Some v \<Rightarrow> Inr v)
      | PStr s \<Rightarrow> Inl (TypeError ''string indices must be integers'')
      | PList l \<Rightarrow> Inl (TypeError ''list indices must be integers or slices, not str'')
      | _ \<Rightarrow> Inl (TypeError (quoted (type_name data) @ '' object is not subscriptable'')))"

text \<open>
  \<^verbatim>\<open>getattr(Category, v)\<close>. A name that is not a string raises \<^verbatim>\<open>TypeError\<close>. The name
  of a member gives the member. The class has attributes of its own besides the
  members, and their names are found as well: the ones whose values the source fixes
  are the class docstring \<^verbatim>\<open>__doc__\<close>, \<^verbatim>\<open>__name__\<close> and \<^verbatim>\<open>__module__\<close>. The
  attributes that the interpreter adds to every Enum class (methods, \<^verbatim>\<open>__members__\<close>
  and the like) are values outside the model and are left out, so a name that is none
  of these raises \<^verbatim>\<open>AttributeError\<close> with the name as its argument.
\<close>

definition Category_class_attrs :: "(string \<times> pyval) list" where
  "Category_class_attrs =
     map (\<lambda>c. (Category_name c, PCategory c)) Category_members @
     [(''__doc__'', PStr ''Enumeration of valid Product Categories''),
      (''__name__'', PStr ''Category''),
      (''__module__'', PStr ''service.models'')]"

definition getattr_Category :: "pyval \<Rightarrow> exn + pyval" where
  "getattr_Category v =
     (case v of
        PStr s \<Rightarrow>
          (case map_of Category_class_attrs s of
             Some a \<Rightarrow> Inr a
           | None \<Rightarrow> Inl (AttributeError s))
      | _ \<Rightarrow> Inl (TypeError ''getattr(): attribute name must be string''))"

text \<open>
  The conversion \<^verbatim>\<open>deserialize\<close> applies to the raw price: a float is converted
  exactly, by \<^verbatim>\<open>Decimal.from_float\<close>; any other value \<open>v\<close> by \<^verbatim>\<open>Decimal(str(v))\<close>,
  where the string of an int is its digits, the string of a Decimal converts back to
  the same Decimal, and the strings of \<^verbatim>\<open>None\<close>, a bool, a member, a list and a dict
  are not numeric strings.
\<close>

definition price_to_Decimal :: "pyval \<Rightarrow> exn + Decimal" where
  "price_to_Decimal raw_price =
     (case raw_price of
        PFloat f \<Rightarrow> Inr (Decimal_from_float f)
      | PStr s \<Rightarrow> Decimal_of_str s
      | PInt n \<Rightarrow> Inr (Dec (n < 0) (nat \<bar>n\<bar>) 0)
      | PDecimal d \<Rightarrow> Inr d
      | _ \<Rightarrow> Inl InvalidOperation)"


text \<open>\<^verbatim>\<open>bool(v)\<close>, the truth value \<^verbatim>\<open>not\<close> tests.\<close>

definition truthy :: "pyval \<Rightarrow> bool" where
  "truthy v =
     (case v of
        PNone \<Rightarrow> False
      | PBool b \<Rightarrow> b
      | PInt n \<Rightarrow> n \<noteq> 0
      | PFloat f \<Rightarrow> (case f of Fin s m e \<Rightarrow> m \<noteq> 0 | _ \<Rightarrow> True)
      | PStr s \<Rightarrow> s \<noteq> []
      | PDecimal d \<Rightarrow> (case d of Dec s c e \<Rightarrow> c \<noteq> 0 | _ \<Rightarrow> True)
      | PCategory c \<Rightarrow> True
      | PList l \<Rightarrow> l \<noteq> []
      | PDict m \<Rightarrow> m \<noteq> [])"

section \<open>Product.serialize and Product.deserialize\<close>



text \<open>The message texts of the \<^verbatim>\<open>DataValidationError\<close>s of \<^verbatim>\<open>deserialize\<close>.\<close>

definition msg_invalid_boolean :: string where
  "msg_invalid_boolean = ''Invalid type for boolean [available]: ''"

definition msg_invalid_attribute :: string where
  "msg_invalid_attribute = ''Invalid attribute: ''"

definition msg_missing :: string where
  "msg_missing = ''Invalid product: missing ''"

definition msg_bad_data :: string where
  "msg_bad_data = ''Invalid product: body of request contained bad or no data ''"

text \<open>
  \<^verbatim>\<open>deserialize\<close> mutates \<^verbatim>\<open>self\<close> statement by statement, so the model returns the
  object as the call leaves it together with the exception raised, if any. The body of
  the \<^verbatim>\<open>try\<close> is a chain of five steps, one per attribute, each assigning its attribute
  and going on to the next.
\<close>

definition read_category :: "Product \<Rightarrow> pyval \<Rightarrow> exn option \<times> Product" where
  "read_category self data =
     (case subscript data ''category'' of
        Inl e \<Rightarrow> (Some e, self)
      | Inr v \<Rightarrow>
          (case getattr_Category v of
             Inl e \<Rightarrow> (Some e, self)
           | Inr c \<Rightarrow> (None, self\<lparr>category := c\<rparr>)))"

definition read_available :: "Product \<Rightarrow> pyval \<Rightarrow> exn option \<times> Product" where
  "read_available self data =
     (case subscript data ''available'' of
        Inl e \<Rightarrow> (Some e, self)
      | Inr v \<Rightarrow>
          if isinstance_bool v then read_category (self\<lparr>available := v\<rparr>) data
          else (Some (DataValidationError (msg_invalid_boolean @ str_type v)), self))"

definition read_price :: "Product \<Rightarrow> pyval \<Rightarrow> exn option \<times> Product" where
  "read_price self data =
     (case subscript data ''price'' of
        Inl e \<Rightarrow> (Some e, self)
      | Inr raw_price \<Rightarrow>
          (case price_to_Decimal raw_price of
             Inl e \<Rightarrow> (Some e, self)
           | Inr v \<Rightarrow>
               (case quantize_cents v of
                  Inl e \<Rightarrow> (Some e, self)
                | Inr q \<Rightarrow> read_available (self\<lparr>price := PDecimal q\<rparr>) data)))"

definition read_description :: "Product \<Rightarrow> pyval \<Rightarrow> exn option \<times> Product" where
  "read_description self data =
     (case subscript data ''description'' of
        Inl e \<Rightarrow> (Some e, self)
      | Inr v \<Rightarrow> read_price (self\<lparr>description := v\<rparr>) data)"

definition read_name :: "Product \<Rightarrow> pyval \<Rightarrow> exn option \<times> Product" where
  "read_name self data =
     (case subscript data ''name'' of
        Inl e \<Rightarrow> (Some e, self)
      | Inr v \<Rightarrow> read_description (self\<lparr>name := v\<rparr>) data)"

text \<open>
  The three \<^verbatim>\<open>except\<close> clauses turn \<^verbatim>\<open>AttributeError\<close>, \<^verbatim>\<open>KeyError\<close> and
  \<^verbatim>\<open>TypeError\<close> into \<^verbatim>\<open>DataValidationError\<close>; any other exception leaves the call as
  it is.
\<close>

definition handle :: "exn \<Rightarrow> exn" where
  "handle e =
     (case e of
        AttributeError a \<Rightarrow> DataValidationError (msg_invalid_attribute @ a)
      | KeyError k \<Rightarrow> DataValidationError (msg_missing @ k)
      | TypeError t \<Rightarrow> DataValidationError (msg_bad_data @ t)
      | _ \<Rightarrow> e)"

definition deserialize :: "Product \<Rightarrow> pyval \<Rightarrow> exn option \<times> Product" where
  "deserialize self data =
     (case read_name self data of (r, self') \<Rightarrow> (map_option handle r, self'))"

section \<open>The record store\<close>

text \<open>
  Modelled from the spec: the Record Store, the external collaborator behind
  \<^verbatim>\<open>db.session\<close> and \<^verbatim>\<open>cls.query\<close> (the ORM is not part of the sources). It holds
  the committed rows in insertion order and the next identifier it will assign; a row
  added with no identifier gets the next one; a commit writes a changed object to the
  row of its identifier; a filter by a column returns the rows whose column equals the
  value. Objects are values here: the identity of an object within a session is not
  modelled.
\<close>

record store =
  rows :: "Product list"
  next_id :: int

text \<open>
  Modelled from the spec: \<^verbatim>\<open>db.session.add(self)\<close> followed by
  \<^verbatim>\<open>db.session.commit()\<close>. An object without an identifier becomes a new row under
  the next identifier of the store, which the object then carries; an object that
  carries an identifier is added under it.
\<close>

definition session_add_commit :: "Product \<Rightarrow> store \<Rightarrow> Product \<times> store" where
  "session_add_commit self db =
     (case id' self of
        PNone \<Rightarrow>
          (let self' = self\<lparr>id' := PInt (next_id db)\<rparr>
           in (self', db\<lparr>rows := rows db @ [self'], next_id := next_id db + 1\<rparr>))
      | _ \<Rightarrow> (self, db\<lparr>rows := rows db @ [self]\<rparr>))"

text \<open>
  The rows of a store carry integer identifiers below the next one to assign, as is the
  case for a store that has assigned every identifier itself.
\<close>

definition wf_store :: "store \<Rightarrow> bool" where
  "wf_store db =
     list_all (\<lambda>r. case id' r of PInt n \<Rightarrow> n < next_id db | _ \<Rightarrow> False) (rows db)"

text \<open>
  Modelled from the spec: \<^verbatim>\<open>db.session.commit()\<close> after a change of the object. The
  row of its identifier, if there is one, is replaced by the object.
\<close>

definition session_commit :: "Product \<Rightarrow> store \<Rightarrow> store" where
  "session_commit self db =
     db\<lparr>rows := map (\<lambda>r. if id' r = id' self then self else r) (rows db)\<rparr>"






section \<open>Product.create, Product.update and Product.find_by_price\<close>

definition msg_empty_id :: string where
  "msg_empty_id = ''Update called with empty ID field''"

definition create :: "Product \<Rightarrow> store \<Rightarrow> Product \<times> store" where
  "create self db = session_add_commit (self\<lparr>id' := PNone\<rparr>) db"

definition update :: "Product \<Rightarrow> store \<Rightarrow> exn option \<times> store" where
  "update self db =
     (if \<not> truthy (id' self)
      then (Some (DataValidationError msg_empty_id), db)
      else (None, session_commit self db))"



section \<open>Example values\<close>

definition db0 :: store where
  "db0 = \<lparr>rows = [new_Product\<lparr>id' := PInt 1\<rparr>], next_id = 2\<rparr>"

text \<open>The float \<^verbatim>\<open>19.99\<close> of the tests, and request bodies.\<close>

definition float_19_99 :: pyfloat where
  "float_19_99 = Fin False 5626684784446013 (- 48)"

definition body_dunder_doc :: pyval where
  "body_dunder_doc = PDict
     [(''name'', PStr ''Test Product''),
      (''description'', PStr ''Test Description''),
      (''price'', PFloat float_19_99),
      (''available'', PBool True),
      (''category'', PStr ''__doc__'')]"

definition body_empty_name :: pyval where
  "body_empty_name = PDict
     [(''name'', PStr ''''),
      (''description'', PStr ''Test Description''),
      (''price'', PInt 10),
      (''available'', PBool True),
      (''category'', PStr ''FOOD'')]"


definition body_invalid_boolean :: "(string \<times> pyval) list" where
  "body_invalid_boolean =
     [(''name'', PStr ''Test''),
      (''description'', PStr ''Test''),
      (''price'', PInt 10),
      (''available'', PStr ''yes''),
      (''category'', PStr ''FOOD'')]"


definition fedora :: Product where
  "fedora = \<lparr>id' = PInt 1, name = PStr ''Fedora'', description = PStr ''A red hat'',
     price = PDecimal (Dec False 1250 (- 2)), available = PBool True,
     category = PCategory CLOTHS\<rparr>"











section \<open>Lookups and the steps of deserialize\<close>

lemma subscript_dict [simp]:
  "subscript (PDict m) k = (case map_of m k of None \<Rightarrow> Inl (KeyError k) | Some v \<Rightarrow> Inr v)"
  by (simp add: subscript_def)

lemma subscript_non_dict:
  assumes "\<And>m. data \<noteq> PDict m"
  shows "\<exists>t. subscript data k = Inl (TypeError t)"
  using assms by (cases data) (auto simp: subscript_def)

lemma subscript_Inr:
  "subscript data k = Inr v \<Longrightarrow> \<exists>m. data = PDict m \<and> map_of m k = Some v"
  by (cases data) (auto simp: subscript_def split: option.splits)

lemma isinstance_bool_iff: "isinstance_bool v \<longleftrightarrow> (\<exists>b. v = PBool b)"
  by (cases v) (simp_all add: isinstance_bool_def)


lemma read_category_None:
  "read_category self data = (None, self') \<Longrightarrow>
     \<exists>v c. subscript data ''category'' = Inr v \<and> getattr_Category v = Inr c
        \<and> self' = self\<lparr>category := c\<rparr>"
  by (auto simp: read_category_def split: sum.splits)

lemma read_available_cases:
  "read_available self data = (r, self') \<Longrightarrow>
     (r \<noteq> None \<and> self' = self) \<or>
     (\<exists>b. subscript data ''available'' = Inr (PBool b)
          \<and> read_category (self\<lparr>available := PBool b\<rparr>) data = (r, self'))"
  by (auto simp: read_available_def isinstance_bool_iff split: sum.splits if_splits)

lemma read_price_cases:
  "read_price self data = (r, self') \<Longrightarrow>
     (r \<noteq> None \<and> self' = self) \<or>
     (\<exists>raw v q. subscript data ''price'' = Inr raw \<and> price_to_Decimal raw = Inr v
          \<and> quantize_cents v = Inr q
          \<and> read_available (self\<lparr>price := PDecimal q\<rparr>) data = (r, self'))"
  by (auto simp: read_price_def split: sum.splits)

lemma read_description_cases:
  "read_description self data = (r, self') \<Longrightarrow>
     (r \<noteq> None \<and> self' = self) \<or>
     (\<exists>v. subscript data ''description'' = Inr v
          \<and> read_price (self\<lparr>description := v\<rparr>) data = (r, self'))"
  by (auto simp: read_description_def split: sum.splits)

lemma read_name_cases:
  "read_name self data = (r, self') \<Longrightarrow>
     (r \<noteq> None \<and> self' = self) \<or>
     (\<exists>v. subscript data ''name'' = Inr v
          \<and> read_description (self\<lparr>name := v\<rparr>) data = (r, self'))"
  by (auto simp: read_name_def split: sum.splits)

lemma deserialize_non_dict:
  assumes "\<And>m. data \<noteq> PDict m"
  shows "\<exists>t. deserialize self data =
           (Some (DataValidationError
              (msg_bad_data @ t)), self)"
proof -
  obtain t where "subscript data ''name'' = Inl (TypeError t)"
    using subscript_non_dict [OF assms] by blast
  then show ?thesis
    by (simp add: deserialize_def read_name_def handle_def)
qed

lemma deserialize_missing_name:
  "map_of m ''name'' = None \<Longrightarrow>
     deserialize self (PDict m) =
       (Some (DataValidationError (msg_missing @ ''name'')), self)"
  by (simp add: deserialize_def read_name_def handle_def)

lemma deserialize_None:
  "deserialize self data = (None, self') \<longleftrightarrow> read_name self data = (None, self')"
  by (auto simp: deserialize_def split: prod.splits)





section \<open>What deserialize leaves on the object\<close>

lemma read_name_None:
  assumes "read_name self data = (None, self')"
  shows "\<exists>m n d raw v q b cv c. data = PDict m
     \<and> map_of m ''name'' = Some n \<and> map_of m ''description'' = Some d
     \<and> map_of m ''price'' = Some raw \<and> price_to_Decimal raw = Inr v
     \<and> quantize_cents v = Inr q
     \<and> map_of m ''available'' = Some (PBool b)
     \<and> map_of m ''category'' = Some cv \<and> getattr_Category cv = Inr c
     \<and> self' = self\<lparr>name := n, description := d, price := PDecimal q,
          available := PBool b, category := c\<rparr>"
proof -
  from read_name_cases [OF assms] obtain n where
    n: "subscript data ''name'' = Inr n"
    and 1: "read_description (self\<lparr>name := n\<rparr>) data = (None, self')"
    by auto
  from subscript_Inr [OF n] obtain m where m: "data = PDict m" "map_of m ''name'' = Some n"
    by auto
  from read_description_cases [OF 1] obtain d where
    d: "subscript data ''description'' = Inr d"
    and 2: "read_price (self\<lparr>name := n, description := d\<rparr>) data = (None, self')"
    by auto
  from read_price_cases [OF 2] obtain raw v q where
    p: "subscript data ''price'' = Inr raw" "price_to_Decimal raw = Inr v"
      "quantize_cents v = Inr q"
    and 3: "read_available (self\<lparr>name := n, description := d, price := PDecimal q\<rparr>) data
        = (None, self')"
    by auto
  from read_available_cases [OF 3] obtain b where
    b: "subscript data ''available'' = Inr (PBool b)"
    and 4: "read_category (self\<lparr>name := n, description := d, price := PDecimal q,
        available := PBool b\<rparr>) data = (None, self')"
    by auto
  from read_category_None [OF 4] obtain cv c where
    c: "subscript data ''category'' = Inr cv" "getattr_Category cv = Inr c"
      "self' = self\<lparr>name := n, description := d, price := PDecimal q,
          available := PBool b, category := c\<rparr>"
    by auto
  from m d p b c show ?thesis
    by (auto split: option.splits)
qed


section \<open>Digits and bits\<close>









section \<open>Quantizing is rounding half up\<close>









section \<open>The exact conversion of a float\<close>







section \<open>Rounding to the nearest float\<close>









section \<open>Valid mappings and records\<close>





section \<open>The store, stripping and the price filter\<close>

lemma wf_store_fresh:
  assumes "wf_store db"
  shows "PInt (next_id db) \<notin> set (map id' (rows db))"
proof
  assume "PInt (next_id db) \<in> set (map id' (rows db))"
  then obtain r where r: "r \<in> set (rows db)" "id' r = PInt (next_id db)"
    by auto
  from assms r(1) have "case id' r of PInt n \<Rightarrow> n < next_id db | _ \<Rightarrow> False"
    by (simp add: wf_store_def list_all_iff)
  with r(2) show False by simp
qed

lemma wf_store_insert:
  assumes "wf_store db"
  shows "wf_store (db\<lparr>rows := rows db @ [self\<lparr>id' := PInt (next_id db)\<rparr>],
            next_id := next_id db + 1\<rparr>)"
  using assms
  by (auto simp: wf_store_def list_all_iff split: pyval.splits)

lemma create_eq:
  "create self db =
     (self\<lparr>id' := PInt (next_id db)\<rparr>,
      db\<lparr>rows := rows db @ [self\<lparr>id' := PInt (next_id db)\<rparr>], next_id := next_id db + 1\<rparr>)"
  by (simp add: create_def session_add_commit_def Let_def)




section \<open>Evaluations on the example values\<close>


lemma quantize_19_99:
  "quantize_cents (Decimal_from_float float_19_99) = Inr (Dec False 1999 (- 2))"
  by (simp add: float_19_99_def Decimal_from_float_def as_integer_ratio_def quantize_cents_def
      rescale_half_up_def prec_def Emax_def ndigits.simps bit_length.simps Let_def)

lemma quantize_int_10: "quantize_cents (Dec False 10 0) = Inr (Dec False 1000 (- 2))"
  by (simp add: quantize_cents_def rescale_half_up_def prec_def Emax_def ndigits.simps Let_def)



lemma getattr_Category_doc:
  "getattr_Category (PStr ''__doc__'') = Inr (PStr ''Enumeration of valid Product Categories'')"
  by (simp add: getattr_Category_def Category_class_attrs_def Category_members_def)

lemma getattr_Category_FOOD: "getattr_Category (PStr ''FOOD'') = Inr (PCategory FOOD)"
  by (simp add: getattr_Category_def Category_class_attrs_def Category_members_def)















lemma deserialize_body_empty_name:
  "deserialize new_Product body_empty_name =
     (None, \<lparr>id' = PNone, name = PStr '''', description = PStr ''Test Description'',
              price = PDecimal (Dec False 1000 (- 2)), available = PBool True,
              category = PCategory FOOD\<rparr>)"
  by (simp add: deserialize_def read_name_def read_description_def read_price_def
      read_available_def read_category_def body_empty_name_def price_to_Decimal_def
      quantize_int_10 getattr_Category_FOOD isinstance_bool_def new_Product_def)


lemma deserialize_body_invalid_boolean:
  "deserialize new_Product (PDict body_invalid_boolean) =
     (Some (DataValidationError (msg_invalid_boolean @ str_type (PStr ''yes''))),
      new_Product\<lparr>name := PStr ''Test'', description := PStr ''Test'',
        price := PDecimal (Dec False 1000 (- 2))\<rparr>)"
  by (simp add: deserialize_def read_name_def read_description_def read_price_def
      read_available_def body_invalid_boolean_def price_to_Decimal_def
      quantize_int_10 isinstance_bool_def handle_def)

lemma wf_store_db0: "wf_store db0"
  by (simp add: wf_store_def db0_def new_Product_def)

section \<open>The claims\<close>







text \<open>
  Claim C3, at the input \<open>body_dunder_doc\<close>: the category \<^verbatim>\<open>"__doc__"\<close> is none of the
  six names, and \<^verbatim>\<open>deserialize\<close> returns normally, with the docstring of the class as the
  category of the object.
\<close>

theorem deserialize_category_dunder_doc:
  "deserialize new_Product body_dunder_doc =
     (None, \<lparr>id' = PNone, name = PStr ''Test Product'',
              description = PStr ''Test Description'',
              price = PDecimal (Dec False 1999 (- 2)), available = PBool True,
              category = PStr ''Enumeration of valid Product Categories''\<rparr>)"
  by (simp add: deserialize_def read_name_def read_description_def read_price_def
      read_available_def read_category_def body_dunder_doc_def price_to_Decimal_def
      quantize_19_99 getattr_Category_doc isinstance_bool_def new_Product_def)







text \<open>
  Claim C6. \<^verbatim>\<open>deserialize\<close> of the empty mapping, of \<^verbatim>\<open>None\<close> and of the string
  \<^verbatim>\<open>"not a dict"\<close> raises \<^verbatim>\<open>DataValidationError\<close> and leaves the object as it was. Every
  input that is not a mapping gets the message of bad or no data, every mapping without
  the key \<^verbatim>\<open>name\<close> gets the message of the missing key, and no message of the first
  kind is one of the second kind.
\<close>

theorem deserialize_bad_or_no_data:
  "deserialize self (PDict []) =
      (Some (DataValidationError (msg_missing @ ''name'')), self)
   \<and> (\<exists>t. deserialize self PNone =
          (Some (DataValidationError
             (msg_bad_data @ t)), self))
   \<and> (\<exists>t. deserialize self (PStr ''not a dict'') =
          (Some (DataValidationError
             (msg_bad_data @ t)), self))
   \<and> (\<forall>data. (\<forall>m. data \<noteq> PDict m) \<longrightarrow>
          (\<exists>t. deserialize self data =
             (Some (DataValidationError
                (msg_bad_data @ t)), self)))
   \<and> (\<forall>m. map_of m ''name'' = None \<longrightarrow>
          deserialize self (PDict m) =
            (Some (DataValidationError (msg_missing @ ''name'')), self))
   \<and> (\<forall>t k. msg_bad_data @ t
            \<noteq> msg_missing @ k)"
proof -
  have empty: "deserialize self (PDict []) =
      (Some (DataValidationError (msg_missing @ ''name'')), self)"
    by (simp add: deserialize_missing_name)
  have none: "\<exists>t. deserialize self PNone =
      (Some (DataValidationError (msg_bad_data @ t)), self)"
    by (rule deserialize_non_dict) simp
  have str: "\<exists>t. deserialize self (PStr ''not a dict'') =
      (Some (DataValidationError (msg_bad_data @ t)), self)"
    by (rule deserialize_non_dict) simp
  have non_dict: "\<forall>data. (\<forall>m. data \<noteq> PDict m) \<longrightarrow>
      (\<exists>t. deserialize self data = (Some (DataValidationError (msg_bad_data @ t)), self))"
    using deserialize_non_dict by blast
  have missing: "\<forall>m. map_of m ''name'' = None \<longrightarrow>
      deserialize self (PDict m) = (Some (DataValidationError (msg_missing @ ''name'')), self)"
    using deserialize_missing_name by blast
  have differ: "\<forall>t k. msg_bad_data @ t \<noteq> msg_missing @ k"
    by (simp add: msg_bad_data_def msg_missing_def)
  from empty none str non_dict missing differ show ?thesis
    by (intro conjI)
qed

theorem deserialize_bad_or_no_data_witness:
  "deserialize new_Product (PDict []) =
      (Some (DataValidationError (msg_missing @ ''name'')), new_Product)
   \<and> (\<exists>t. deserialize new_Product (PList [PInt 1]) =
          (Some (DataValidationError
             (msg_bad_data @ t)), new_Product))
   \<and> deserialize new_Product (PDict [(''description'', PStr ''Missing name'')]) =
        (Some (DataValidationError (msg_missing @ ''name'')), new_Product)"
  using deserialize_bad_or_no_data [of new_Product] by simp

text \<open>
  Claim C7 as stated fails: a mapping whose name is the empty string deserializes, and the
  name of the object is then empty.
\<close>

theorem deserialize_empty_name_counterexample:
  "fst (deserialize new_Product body_empty_name) = None
   \<and> name (snd (deserialize new_Product body_empty_name)) = PStr ''''"
  by (simp add: deserialize_body_empty_name)

text \<open>
  Claim C7, amended. After a successful \<^verbatim>\<open>deserialize\<close> the input is a mapping and the name
  of the object is the value of its key \<^verbatim>\<open>name\<close>, whatever that value is: the name is
  stored without any check.
\<close>

theorem deserialize_name_unchecked:
  assumes "deserialize self data = (None, self')"
  shows "\<exists>m. data = PDict m \<and> map_of m ''name'' = Some (name self')"
proof -
  from assms have "read_name self data = (None, self')"
    by (simp add: deserialize_None)
  from read_name_None [OF this] show ?thesis
    by auto
qed

theorem deserialize_name_unchecked_witness:
  "\<exists>m. body_empty_name = PDict m \<and> map_of m ''name'' = Some (PStr '''')"
  using deserialize_name_unchecked [OF deserialize_body_empty_name]
  by simp

text \<open>
  Claim C8. \<^verbatim>\<open>update\<close> on an object whose id is \<^verbatim>\<open>None\<close> raises
  \<^verbatim>\<open>DataValidationError\<close>; whenever \<^verbatim>\<open>update\<close> raises, the store is unchanged; and
  \<^verbatim>\<open>update\<close> succeeds only on an object that carries an id.
\<close>

theorem update_without_id:
  "(id' self = PNone \<longrightarrow>
      update self db = (Some (DataValidationError msg_empty_id), db))
   \<and> (fst (update self db) \<noteq> None \<longrightarrow> snd (update self db) = db)
   \<and> (fst (update self db) = None \<longrightarrow> id' self \<noteq> PNone \<and> truthy (id' self))"
  by (auto simp: update_def truthy_def)

theorem update_without_id_witness:
  "update new_Product db0 =
      (Some (DataValidationError msg_empty_id), db0)
   \<and> fst (update (new_Product\<lparr>id' := PInt 1, name := PStr ''testing''\<rparr>) db0) = None"
  using update_without_id [of new_Product db0]
  by (simp add: new_Product_def update_def truthy_def)



text \<open>
  Claim C10. \<^verbatim>\<open>create\<close> sets the id to \<^verbatim>\<open>None\<close> before it adds the object, so its
  result does not depend on the id the object carried: the object is appended as a new
  row under the next identifier of the store; in a store whose rows carry identifiers
  assigned by it, this identifier is the id of no existing row, the existing rows are
  kept as they are, and the store stays of that kind.
\<close>

theorem create_discards_id:
  assumes "wf_store db"
  shows "create (self\<lparr>id' := v\<rparr>) db = create self db
     \<and> create self db =
         (self\<lparr>id' := PInt (next_id db)\<rparr>,
          db\<lparr>rows := rows db @ [self\<lparr>id' := PInt (next_id db)\<rparr>],
             next_id := next_id db + 1\<rparr>)
     \<and> id' (fst (create self db)) \<notin> set (map id' (rows db))
     \<and> take (length (rows db)) (rows (snd (create self db))) = rows db
     \<and> length (rows (snd (create self db))) = Suc (length (rows db))
     \<and> wf_store (snd (create self db))"
proof -
  have indep: "create (self\<lparr>id' := v\<rparr>) db = create self db"
    by (simp add: create_def)
  have fresh: "id' (fst (create self db)) \<notin> set (map id' (rows db))"
    using wf_store_fresh [OF assms] by (simp add: create_eq)
  have kept: "take (length (rows db)) (rows (snd (create self db))) = rows db"
    by (simp add: create_eq)
  have len: "length (rows (snd (create self db))) = Suc (length (rows db))"
    by (simp add: create_eq)
  have wf: "wf_store (snd (create self db))"
    using wf_store_insert [OF assms] by (simp add: create_eq)
  from indep create_eq fresh kept len wf show ?thesis
    by (intro conjI)
qed

theorem create_discards_id_witness:
  "create (fedora\<lparr>id' := PInt 1\<rparr>) db0 =
     (fedora\<lparr>id' := PInt 2\<rparr>,
      \<lparr>rows = [new_Product\<lparr>id' := PInt 1\<rparr>, fedora\<lparr>id' := PInt 2\<rparr>], next_id = 3\<rparr>)"
  using create_discards_id [OF wf_store_db0, where self = fedora and v = "PInt 1"]
  by (simp add: db0_def)

end
